theory Spec2Isabelle
  imports Main
begin

section \<open>Go values used by otel.go\<close>

text \<open>
  A Go \<open>error\<close> is either a plain error carrying a message or the wrapper that
  \<open>errors.Join\<close> builds around a list of errors. The nil error is \<open>None\<close> of
  \<open>error option\<close>.
\<close>

datatype error = errorString string | joinError "error list"

text \<open>\<open>err.Error()\<close>: a joined error prints its members separated by newlines.\<close>

fun intercalate :: "string \<Rightarrow> string list \<Rightarrow> string" where
  "intercalate sep [] = []"
| "intercalate sep [x] = x"
| "intercalate sep (x # y # ys) = x @ sep @ intercalate sep (y # ys)"

fun error_Error :: "error \<Rightarrow> string" where
  "error_Error (errorString m) = m"
| "error_Error (joinError es) = intercalate [CHR 0x0A] (map error_Error es)"

text \<open>
  \<open>errors.Join(errs...)\<close> of the standard library: nil arguments are discarded, the
  result is nil when nothing is left, and otherwise a fresh wrapper around the remaining
  errors in their order.
\<close>

definition errors_Join :: "error option list \<Rightarrow> error option" where
  "errors_Join errs =
     (case List.map_filter id errs of [] \<Rightarrow> None | e # es \<Rightarrow> Some (joinError (e # es)))"

text \<open>
  The plain errors reachable inside an error value (what \<open>errors.Is\<close> walks through),
  left to right.
\<close>

fun leaves :: "error \<Rightarrow> error list" where
  "leaves (errorString m) = [errorString m]"
| "leaves (joinError es) = concat (map leaves es)"

definition leaves_opt :: "error option \<Rightarrow> error list" where
  "leaves_opt r = (case r of None \<Rightarrow> [] | Some e \<Rightarrow> leaves e)"

text \<open>A \<open>context.Context\<close>: only handed on to the library, modelled by its deadline.\<close>

datatype context_Context = Deadline "nat option"

text \<open>\<open>time.Duration\<close> counts nanoseconds.\<close>

definition time_Millisecond :: int where
  "time_Millisecond = 1000000"

definition time_Second :: int where
  "time_Second = 1000 * time_Millisecond"

section \<open>The OpenTelemetry values the bootstrap builds\<close>

text \<open>Attribute values; a resource is a schema URL and a set of attributes keyed by name.\<close>

datatype Value = BOOL bool | INT64 int | STRING string

record resource =
  schemaURL :: string
  attributes :: "string \<rightharpoonup> Value"

text \<open>semconv v1.21.0, the package otel.go imports.\<close>

definition semconv_SchemaURL :: string where
  "semconv_SchemaURL = ''https://opentelemetry.io/schemas/1.21.0''"

definition semconv_ServiceNameKey :: string where
  "semconv_ServiceNameKey = ''service.name''"

definition semconv_ServiceVersionKey :: string where
  "semconv_ServiceVersionKey = ''service.version''"

definition semconv_ServiceName :: "string \<Rightarrow> string \<times> Value" where
  "semconv_ServiceName val = (semconv_ServiceNameKey, STRING val)"

definition semconv_ServiceVersion :: "string \<Rightarrow> string \<times> Value" where
  "semconv_ServiceVersion val = (semconv_ServiceVersionKey, STRING val)"

text \<open>
  \<open>resource.NewWithAttributes\<close>: key-values with an empty key are dropped, and of two
  values under one key the later one stays.
\<close>

fun attribute_NewSet :: "(string \<times> Value) list \<Rightarrow> (string \<rightharpoonup> Value)" where
  "attribute_NewSet [] = Map.empty"
| "attribute_NewSet ((k, v) # kvs) =
     (if k = [] then attribute_NewSet kvs else [k \<mapsto> v] ++ attribute_NewSet kvs)"

definition resource_NewWithAttributes :: "string \<Rightarrow> (string \<times> Value) list \<Rightarrow> resource" where
  "resource_NewWithAttributes url attrs = \<lparr>schemaURL = url, attributes = attribute_NewSet attrs\<rparr>"

definition errMergeConflictSchemaURL :: error where
  "errMergeConflictSchemaURL = errorString ''cannot merge resource due to conflicting Schema URL''"

text \<open>
  \<open>resource.Merge(a, b)\<close>: an empty schema URL gives way to the other one, two different
  non-empty schema URLs are a merge conflict, and the attributes of \<open>b\<close> overwrite those
  of \<open>a\<close>.
\<close>

definition resource_Merge :: "resource \<Rightarrow> resource \<Rightarrow> error + resource" where
  "resource_Merge a b =
     (if schemaURL a = [] then Inr \<lparr>schemaURL = schemaURL b, attributes = attributes a ++ attributes b\<rparr>
      else if schemaURL b = [] then Inr \<lparr>schemaURL = schemaURL a, attributes = attributes a ++ attributes b\<rparr>
      else if schemaURL a = schemaURL b then Inr \<lparr>schemaURL = schemaURL a, attributes = attributes a ++ attributes b\<rparr>
      else Inl errMergeConflictSchemaURL)"

text \<open>The propagators of package \<open>propagation\<close>.\<close>

datatype propagator = TraceContext | Baggage | CompositeTextMapPropagator "propagator list"

definition propagation_NewCompositeTextMapPropagator :: "propagator list \<Rightarrow> propagator" where
  "propagation_NewCompositeTextMapPropagator ps = CompositeTextMapPropagator ps"

text \<open>The OTLP span exporter is opaque to this program: a handle.\<close>

datatype exporter = otlptrace_Exporter nat

text \<open>
  A batching span processor, with the one setting otel.go touches. The library's default
  for the batch timeout is \<open>DefaultScheduleDelay\<close> = 5000 milliseconds.
\<close>

record span_processor =
  bsp_exporter :: exporter
  BatchTimeout :: int

datatype BatchSpanProcessorOption = WithBatchTimeout int

definition trace_DefaultScheduleDelay :: int where
  "trace_DefaultScheduleDelay = 5000"

fun applyBatchSpanProcessorOption :: "BatchSpanProcessorOption \<Rightarrow> span_processor \<Rightarrow> span_processor" where
  "applyBatchSpanProcessorOption (WithBatchTimeout delay) cfg = cfg\<lparr>BatchTimeout := delay\<rparr>"

definition trace_NewBatchSpanProcessor :: "exporter \<Rightarrow> BatchSpanProcessorOption list \<Rightarrow> span_processor" where
  "trace_NewBatchSpanProcessor e opts =
     fold applyBatchSpanProcessorOption opts
       \<lparr>bsp_exporter = e, BatchTimeout = trace_DefaultScheduleDelay * time_Millisecond\<rparr>"

text \<open>
  A tracer provider as configured by its options: the span processors and the resource
  (absent an option, the resource is left to the library's default, \<open>None\<close> here).
\<close>

record tracer_provider =
  tp_processors :: "span_processor list"
  tp_resource :: "resource option"

datatype TracerProviderOption =
    trace_WithBatcher exporter "BatchSpanProcessorOption list"
  | trace_WithResource resource

fun applyTracerProviderOption :: "TracerProviderOption \<Rightarrow> tracer_provider \<Rightarrow> tracer_provider" where
  "applyTracerProviderOption (trace_WithBatcher e opts) cfg =
     cfg\<lparr>tp_processors := tp_processors cfg @ [trace_NewBatchSpanProcessor e opts]\<rparr>"
| "applyTracerProviderOption (trace_WithResource r) cfg = cfg\<lparr>tp_resource := Some r\<rparr>"

definition trace_NewTracerProvider :: "TracerProviderOption list \<Rightarrow> tracer_provider" where
  "trace_NewTracerProvider opts =
     fold applyTracerProviderOption opts \<lparr>tp_processors = [], tp_resource = None\<rparr>"

text \<open>A meter provider as configured by its options: the resource and the readers.\<close>

datatype Reader = PeriodicReader int

record meter_provider =
  mp_resource :: "resource option"
  mp_readers :: "Reader list"

datatype MeterProviderOption = metric_WithResource resource | metric_WithReader Reader

fun applyMeterProviderOption :: "MeterProviderOption \<Rightarrow> meter_provider \<Rightarrow> meter_provider" where
  "applyMeterProviderOption (metric_WithResource r) cfg = cfg\<lparr>mp_resource := Some r\<rparr>"
| "applyMeterProviderOption (metric_WithReader r) cfg = cfg\<lparr>mp_readers := mp_readers cfg @ [r]\<rparr>"

definition metric_NewMeterProvider :: "MeterProviderOption list \<Rightarrow> meter_provider" where
  "metric_NewMeterProvider opts =
     fold applyMeterProviderOption opts \<lparr>mp_resource = None, mp_readers = []\<rparr>"

section \<open>The process state\<close>

text \<open>
  A cleanup procedure is a method value: the \<open>Shutdown\<close> method of a provider, bound
  to that provider.
\<close>

datatype cleanup =
    TracerProvider_Shutdown tracer_provider
  | MeterProvider_Shutdown meter_provider

text \<open>
  What the program does not decide: the process-default resource, whether the OTLP
  client can be built, and what a provider's \<open>Shutdown\<close> returns (given the context and
  the cleanups invoked before it).
\<close>

record env =
  resource_Default :: resource
  otlptracehttp_New :: "context_Context \<Rightarrow> error + exporter"
  provider_Shutdown :: "cleanup \<Rightarrow> context_Context \<Rightarrow> cleanup list \<Rightarrow> error option"

text \<open>
  The state \<open>setupOTelSDK\<close> and its closures act on: the three globals of package
  \<open>otel\<close> (\<open>None\<close> while nothing has been installed), the lines written by package
  \<open>log\<close>, the provider cleanups invoked so far, and the variable \<open>shutdownFuncs\<close>
  that the closures \<open>shutdown\<close> and \<open>handleErr\<close> capture.
\<close>

record state =
  otel_textMapPropagator :: "propagator option"
  otel_tracerProvider :: "tracer_provider option"
  otel_meterProvider :: "meter_provider option"
  log_lines :: "string list"
  invoked :: "cleanup list"
  shutdownFuncs :: "cleanup list"

datatype 'a outcome = Return 'a | Panic error

definition otel_SetTextMapPropagator :: "propagator \<Rightarrow> state \<Rightarrow> state" where
  "otel_SetTextMapPropagator p s = s\<lparr>otel_textMapPropagator := Some p\<rparr>"

definition otel_SetTracerProvider :: "tracer_provider \<Rightarrow> state \<Rightarrow> state" where
  "otel_SetTracerProvider tp s = s\<lparr>otel_tracerProvider := Some tp\<rparr>"

definition otel_SetMeterProvider :: "meter_provider \<Rightarrow> state \<Rightarrow> state" where
  "otel_SetMeterProvider mp s = s\<lparr>otel_meterProvider := Some mp\<rparr>"

text \<open>Package \<open>log\<close>: the lines a call writes are appended to the log.\<close>

definition log_write :: "string list \<Rightarrow> state \<Rightarrow> state" where
  "log_write ls s = s\<lparr>log_lines := log_lines s @ ls\<rparr>"

text \<open>Calling a registered cleanup \<open>fn(ctx)\<close>.\<close>

definition call :: "env \<Rightarrow> cleanup \<Rightarrow> context_Context \<Rightarrow> state \<Rightarrow> error option \<times> state" where
  "call E fn ctx s = (provider_Shutdown E fn ctx (invoked s), s\<lparr>invoked := invoked s @ [fn]\<rparr>)"

section \<open>otel.go\<close>

text \<open>
  The loop of \<open>shutdown\<close>: \<open>for _, fn := range shutdownFuncs { err = errors.Join(err, fn(ctx)) }\<close>.
\<close>

fun shutdown_loop :: "env \<Rightarrow> context_Context \<Rightarrow> cleanup list \<Rightarrow> error option \<Rightarrow> state \<Rightarrow> error option \<times> state" where
  "shutdown_loop E ctx [] err s = (err, s)"
| "shutdown_loop E ctx (fn # fns) err s =
     (case call E fn ctx s of (r, s') \<Rightarrow> shutdown_loop E ctx fns (errors_Join [err, r]) s')"

definition shutdown :: "env \<Rightarrow> context_Context \<Rightarrow> state \<Rightarrow> error option \<times> state" where
  "shutdown E ctx s =
     (case shutdown_loop E ctx (shutdownFuncs s) None s of
        (err, s') \<Rightarrow> (err, s'\<lparr>shutdownFuncs := []\<rparr>))"

text \<open>\<open>handleErr\<close> assigns the result \<open>err\<close>; the model returns that value.\<close>

definition handleErr :: "env \<Rightarrow> context_Context \<Rightarrow> error \<Rightarrow> state \<Rightarrow> error option \<times> state" where
  "handleErr E ctx inErr s =
     (case shutdown E ctx s of (e, s') \<Rightarrow> (errors_Join [Some inErr, e], s'))"

definition newResource :: "env \<Rightarrow> string \<Rightarrow> string \<Rightarrow> error + resource" where
  "newResource E serviceName serviceVersion =
     resource_Merge (resource_Default E)
       (resource_NewWithAttributes semconv_SchemaURL
          [semconv_ServiceName serviceName, semconv_ServiceVersion serviceVersion])"

definition newPropagator :: propagator where
  "newPropagator = propagation_NewCompositeTextMapPropagator [TraceContext, Baggage]"

text \<open>
  The three constructors below touch nothing but the log, so each returns its result
  together with the lines it logs.

  \<open>newExporter\<close> logs and panics when the client cannot be built; otherwise it returns
  the exporter with a nil error.
\<close>

definition newExporter :: "env \<Rightarrow> context_Context \<Rightarrow> (exporter \<times> error option) outcome \<times> string list" where
  "newExporter E ctx =
     (case otlptracehttp_New E ctx of
        Inl err \<Rightarrow> (Panic err, [''Error sending traces '' @ error_Error err])
      | Inr traceExporter \<Rightarrow> (Return (traceExporter, None), []))"

definition newTraceProvider :: "resource \<Rightarrow> exporter \<Rightarrow> (error + tracer_provider) \<times> string list" where
  "newTraceProvider res exporter =
     (let traceProvider = trace_NewTracerProvider
            [trace_WithBatcher exporter [WithBatchTimeout time_Second], trace_WithResource res]
      in (Inr traceProvider, [''Sent to otel collector'']))"

definition newMeterProvider :: "resource \<Rightarrow> (error + meter_provider) \<times> string list" where
  "newMeterProvider res =
     (let meterProvider = metric_NewMeterProvider [metric_WithResource res]
      in (Inr meterProvider, []))"

text \<open>
  \<open>setupOTelSDK\<close>. The result is the returned \<open>err\<close> (the returned \<open>shutdown\<close> is
  always the closure over \<open>shutdownFuncs\<close>, which lives in the state), or the panic that
  left the function.
\<close>

definition setupOTelSDK :: "env \<Rightarrow> context_Context \<Rightarrow> string \<Rightarrow> string \<Rightarrow> state \<Rightarrow> error option outcome \<times> state" where
  "setupOTelSDK E ctx serviceName serviceVersion s0 =
     (let s = s0\<lparr>shutdownFuncs := []\<rparr> in
      case newResource E serviceName serviceVersion of
        Inl err \<Rightarrow> (case handleErr E ctx err s of (e, s') \<Rightarrow> (Return e, s'))
      | Inr res \<Rightarrow>
          (let s1 = otel_SetTextMapPropagator newPropagator s in
           case newExporter E ctx of
             (Panic p, l2) \<Rightarrow> (Panic p, log_write l2 s1)
           | (Return (exporter, _), l2) \<Rightarrow>
               (let s2 = log_write l2 s1 in
                case newTraceProvider res exporter of
                  (Inl err, l3) \<Rightarrow>
                    (case handleErr E ctx err (log_write l3 s2) of (e, s') \<Rightarrow> (Return e, s'))
                | (Inr tracerProvider, l3) \<Rightarrow>
                    (let s3 = log_write l3 s2;
                         s4 = s3\<lparr>shutdownFuncs := shutdownFuncs s3 @ [TracerProvider_Shutdown tracerProvider]\<rparr>;
                         s5 = otel_SetTracerProvider tracerProvider s4
                     in case newMeterProvider res of
                          (Inl err, l6) \<Rightarrow>
                            (case handleErr E ctx err (log_write l6 s5) of (e, s') \<Rightarrow> (Return e, s'))
                        | (Inr meterProvider, l6) \<Rightarrow>
                            (let s6 = log_write l6 s5;
                                 s7 = s6\<lparr>shutdownFuncs := shutdownFuncs s6 @ [MeterProvider_Shutdown meterProvider]\<rparr>;
                                 s8 = otel_SetMeterProvider meterProvider s7
                             in (Return None, s8))))))"

text \<open>
  Successive invocations of the returned \<open>shutdown\<close>, one per context of the list, with
  the error each one returns.
\<close>

fun shutdown_times :: "env \<Rightarrow> context_Context list \<Rightarrow> state \<Rightarrow> error option list \<times> state" where
  "shutdown_times E [] s = ([], s)"
| "shutdown_times E (c # cs) s =
     (case shutdown E c s of (e, s') \<Rightarrow>
        (case shutdown_times E cs s' of (es, s'') \<Rightarrow> (e # es, s'')))"

text \<open>
  What the cleanups \<open>fns\<close> return when they are called one after the other, \<open>hist\<close>
  being the cleanups invoked before.
\<close>

fun outcomes :: "env \<Rightarrow> context_Context \<Rightarrow> cleanup list \<Rightarrow> cleanup list \<Rightarrow> error option list" where
  "outcomes E ctx hist [] = []"
| "outcomes E ctx hist (fn # fns) = provider_Shutdown E fn ctx hist # outcomes E ctx (hist @ [fn]) fns"

text \<open>
  The providers \<open>newTraceProvider\<close> and \<open>newMeterProvider\<close> build, with every option
  applied.
\<close>

definition the_tracerProvider :: "resource \<Rightarrow> exporter \<Rightarrow> tracer_provider" where
  "the_tracerProvider res x =
     \<lparr>tp_processors = [\<lparr>bsp_exporter = x, BatchTimeout = 1000000000\<rparr>], tp_resource = Some res\<rparr>"

definition the_meterProvider :: "resource \<Rightarrow> meter_provider" where
  "the_meterProvider res = \<lparr>mp_resource = Some res, mp_readers = []\<rparr>"

section \<open>The dice-roll handler\<close>

text \<open>
  Modelled from the spec: rolldice.go, the file of the dice-roll handler, is not among the
  sources; this section follows section 4.3 of the specification. What the handler needs
  of the standard library comes first: \<open>strconv.Itoa\<close>, the decimal digits of an
  integer, and the shape of a request and of a response.
\<close>

fun digits :: "nat \<Rightarrow> string" where
  "digits n = (if n < 10 then [''0123456789'' ! n] else digits (n div 10) @ [''0123456789'' ! (n mod 10)])"

definition strconv_Itoa :: "int \<Rightarrow> string" where
  "strconv_Itoa i = (if i < 0 then CHR ''-'' # digits (nat (- i)) else digits (nat i))"

datatype http_method = GET | HEAD | POST | PUT | DELETE

record request =
  req_method :: http_method
  req_path :: string

record response =
  status :: nat
  content_type :: string
  body :: string

text \<open>The telemetry a handler emits: the spans it ended and the roll counter per value.\<close>

record telemetry =
  spans :: "string list"
  roll_counter :: "int \<Rightarrow> nat"

text \<open>
  Modelled from the spec: the roll, a pseudo-random integer of \<open>{1..6}\<close>. \<open>rnd\<close> is
  the raw output of the generator, reduced to six values and shifted by one.
\<close>

definition roll :: "nat \<Rightarrow> int" where
  "roll rnd = 1 + int (rnd mod 6)"

text \<open>
  Modelled from the spec: the handler of rolldice.go. It rolls, counts the roll under its
  value, records one span and answers 200 with the decimal string of the roll as plain
  text; a method other than GET is rejected with 405, the rejection the specification
  gives as its example.
\<close>

definition rolldice :: "nat \<Rightarrow> request \<Rightarrow> telemetry \<Rightarrow> response \<times> telemetry" where
  "rolldice rnd req t =
     (if req_method req = GET then
        (let r = roll rnd in
         (\<lparr>status = 200, content_type = ''text/plain'', body = strconv_Itoa r\<rparr>,
          t\<lparr>spans := spans t @ [''roll''], roll_counter := (roll_counter t)(r := Suc (roll_counter t r))\<rparr>))
      else (\<lparr>status = 405, content_type = ''text/plain'', body = []\<rparr>, t))"

section \<open>Concrete inputs\<close>

definition ex_ctx :: context_Context where
  "ex_ctx = Deadline None"

definition ex_default :: resource where
  "ex_default = \<lparr>schemaURL = semconv_SchemaURL,
                  attributes = [''telemetry.sdk.language'' \<mapsto> STRING ''go'']\<rparr>"

definition ex_resource :: resource where
  "ex_resource = \<lparr>schemaURL = semconv_SchemaURL,
                   attributes = [''telemetry.sdk.language'' \<mapsto> STRING ''go'',
                                 ''service.name'' \<mapsto> STRING ''rolldice'',
                                 ''service.version'' \<mapsto> STRING ''1.0'']\<rparr>"

text \<open>An environment where the bootstrap goes through and both providers fail to shut down.\<close>

definition ex_env :: env where
  "ex_env = \<lparr>resource_Default = ex_default,
             otlptracehttp_New = (\<lambda>ctx. Inr (otlptrace_Exporter 0)),
             provider_Shutdown = (\<lambda>fn ctx hist. case fn of
                 TracerProvider_Shutdown tp \<Rightarrow> Some (errorString ''traces not flushed'')
               | MeterProvider_Shutdown mp \<Rightarrow> Some (errorString ''metrics not flushed''))\<rparr>"

text \<open>One where the process-default resource has another schema URL.\<close>

definition ex_env_conflict :: env where
  "ex_env_conflict =
     ex_env\<lparr>resource_Default := ex_default\<lparr>schemaURL := ''https://opentelemetry.io/schemas/1.24.0''\<rparr>\<rparr>"

text \<open>One where the OTLP client cannot be built.\<close>

definition ex_env_no_exporter :: env where
  "ex_env_no_exporter = ex_env\<lparr>otlptracehttp_New := (\<lambda>ctx. Inl (errorString ''invalid endpoint''))\<rparr>"

definition ex_state :: state where
  "ex_state = \<lparr>otel_textMapPropagator = None, otel_tracerProvider = None, otel_meterProvider = None,
               log_lines = [], invoked = [], shutdownFuncs = []\<rparr>"

definition ex_tp :: tracer_provider where
  "ex_tp = the_tracerProvider ex_resource (otlptrace_Exporter 0)"

definition ex_mp :: meter_provider where
  "ex_mp = the_meterProvider ex_resource"

text \<open>The state the bootstrap leaves in \<open>ex_env\<close>, started from \<open>ex_state\<close>.\<close>

definition ex_booted :: state where
  "ex_booted = \<lparr>otel_textMapPropagator = Some (CompositeTextMapPropagator [TraceContext, Baggage]),
                otel_tracerProvider = Some ex_tp, otel_meterProvider = Some ex_mp,
                log_lines = [''Sent to otel collector''], invoked = [],
                shutdownFuncs = [TracerProvider_Shutdown ex_tp, MeterProvider_Shutdown ex_mp]\<rparr>"

section \<open>Facts about the join and the shutdown loop\<close>

lemma errors_Join_pair:
  "errors_Join [a, b] =
     (case a of None \<Rightarrow> (case b of None \<Rightarrow> None | Some y \<Rightarrow> Some (joinError [y]))
      | Some x \<Rightarrow> (case b of None \<Rightarrow> Some (joinError [x]) | Some y \<Rightarrow> Some (joinError [x, y])))"
  by (simp add: errors_Join_def List.map_filter_simps split: option.splits)

lemma leaves_opt_None: "leaves_opt None = []"
  by (simp add: leaves_opt_def)

lemma leaves_opt_Join: "leaves_opt (errors_Join [a, b]) = leaves_opt a @ leaves_opt b"
  by (simp add: errors_Join_pair leaves_opt_def split: option.splits)

lemma errors_Join_None: "errors_Join [a, b] = None \<longleftrightarrow> a = None \<and> b = None"
  by (simp add: errors_Join_pair split: option.splits)

lemma shutdown_loop_state:
  "snd (shutdown_loop E ctx fns err s) = s\<lparr>invoked := invoked s @ fns\<rparr>"
  by (induction fns arbitrary: err s) (simp_all add: call_def)

lemma shutdown_loop_err:
  "fst (shutdown_loop E ctx fns err s) =
     foldl (\<lambda>acc r. errors_Join [acc, r]) err (outcomes E ctx (invoked s) fns)"
  by (induction fns arbitrary: err s) (simp_all add: call_def)

lemma foldl_Join_leaves:
  "leaves_opt (foldl (\<lambda>acc r. errors_Join [acc, r]) err rs) = leaves_opt err @ concat (map leaves_opt rs)"
  by (induction rs arbitrary: err) (simp_all add: leaves_opt_Join)

lemma foldl_Join_None:
  "foldl (\<lambda>acc r. errors_Join [acc, r]) err rs = None \<longleftrightarrow> err = None \<and> (\<forall>r \<in> set rs. r = None)"
  by (induction rs arbitrary: err) (auto simp add: errors_Join_None)

lemma shutdown_eq:
  "shutdown E ctx s =
     (foldl (\<lambda>acc r. errors_Join [acc, r]) None (outcomes E ctx (invoked s) (shutdownFuncs s)),
      s\<lparr>invoked := invoked s @ shutdownFuncs s, shutdownFuncs := []\<rparr>)"
proof -
  obtain err s' where l: "shutdown_loop E ctx (shutdownFuncs s) None s = (err, s')"
    by (cases "shutdown_loop E ctx (shutdownFuncs s) None s")
  have "err = foldl (\<lambda>acc r. errors_Join [acc, r]) None (outcomes E ctx (invoked s) (shutdownFuncs s))"
    using shutdown_loop_err [of E ctx "shutdownFuncs s" None s] l by simp
  moreover have "s' = s\<lparr>invoked := invoked s @ shutdownFuncs s\<rparr>"
    using shutdown_loop_state [of E ctx "shutdownFuncs s" None s] l by simp
  ultimately show ?thesis by (simp add: shutdown_def l)
qed

lemma shutdown_empty: "shutdownFuncs s = [] \<Longrightarrow> shutdown E ctx s = (None, s)"
  by (simp add: shutdown_eq)


lemma newTraceProvider_eq:
  "newTraceProvider res x = (Inr (the_tracerProvider res x), [''Sent to otel collector''])"
  by (simp add: newTraceProvider_def trace_NewTracerProvider_def trace_NewBatchSpanProcessor_def
      the_tracerProvider_def time_Second_def time_Millisecond_def)

lemma newMeterProvider_eq: "newMeterProvider res = (Inr (the_meterProvider res), [])"
  by (simp add: newMeterProvider_def metric_NewMeterProvider_def the_meterProvider_def)

lemma handleErr_empty:
  "shutdownFuncs s = [] \<Longrightarrow> handleErr E ctx err s = (Some (joinError [err]), s)"
  by (simp add: handleErr_def shutdown_empty errors_Join_pair)



section \<open>The bootstrap, case by case\<close>

lemma setupOTelSDK_cases:
  "setupOTelSDK E ctx n v s0 =
     (case newResource E n v of
        Inl err \<Rightarrow> (Return (Some (joinError [err])), s0\<lparr>shutdownFuncs := []\<rparr>)
      | Inr res \<Rightarrow>
          (case otlptracehttp_New E ctx of
             Inl e \<Rightarrow>
               (Panic e, s0\<lparr>otel_textMapPropagator := Some newPropagator,
                            log_lines := log_lines s0 @ [''Error sending traces '' @ error_Error e],
                            shutdownFuncs := []\<rparr>)
           | Inr x \<Rightarrow>
               (Return None,
                s0\<lparr>otel_textMapPropagator := Some newPropagator,
                   otel_tracerProvider := Some (the_tracerProvider res x),
                   otel_meterProvider := Some (the_meterProvider res),
                   log_lines := log_lines s0 @ [''Sent to otel collector''],
                   shutdownFuncs := [TracerProvider_Shutdown (the_tracerProvider res x),
                                     MeterProvider_Shutdown (the_meterProvider res)]\<rparr>)))"
proof (cases "newResource E n v")
  case (Inl err)
  then show ?thesis by (simp add: setupOTelSDK_def handleErr_empty)
next
  case (Inr res)
  show ?thesis
  proof (cases "otlptracehttp_New E ctx")
    case (Inl e)
    with Inr show ?thesis
      by (simp add: setupOTelSDK_def newExporter_def otel_SetTextMapPropagator_def log_write_def)
  next
    case x: (Inr x)
    with Inr show ?thesis
      by (simp add: setupOTelSDK_def newExporter_def otel_SetTextMapPropagator_def log_write_def
          otel_SetTracerProvider_def otel_SetMeterProvider_def newTraceProvider_eq newMeterProvider_eq)
  qed
qed

lemma shutdown_times_empty:
  "shutdownFuncs s = [] \<Longrightarrow> shutdown_times E cs s = (replicate (length cs) None, s)"
  by (induction cs) (simp_all add: shutdown_empty)

lemma setupOTelSDK_returns:
  assumes "setupOTelSDK E ctx n v s0 = (Return r, s)"
  shows "invoked s = invoked s0 \<and> distinct (shutdownFuncs s)"
  using assms by (auto simp add: setupOTelSDK_cases split: sum.splits)

lemma setupOTelSDK_panics:
  assumes "fst (setupOTelSDK E ctx n v s0) = Panic p"
  shows "otlptracehttp_New E ctx = Inl p \<and> (\<exists>res. newResource E n v = Inr res)"
  using assms by (auto simp add: setupOTelSDK_cases split: sum.splits)





lemma service_attributes:
  "attribute_NewSet [semconv_ServiceName n, semconv_ServiceVersion v] =
     [''service.name'' \<mapsto> STRING n, ''service.version'' \<mapsto> STRING v]"
  by (simp add: semconv_ServiceName_def semconv_ServiceVersion_def semconv_ServiceNameKey_def
      semconv_ServiceVersionKey_def)

lemma Itoa_roll: "strconv_Itoa (roll rnd) \<in> {''1'', ''2'', ''3'', ''4'', ''5'', ''6''}"
proof -
  have "rnd mod 6 < 6" by simp
  then consider "rnd mod 6 = 0" | "rnd mod 6 = 1" | "rnd mod 6 = 2" | "rnd mod 6 = 3"
    | "rnd mod 6 = 4" | "rnd mod 6 = 5"
    by linarith
  then show ?thesis
    by cases (simp_all add: roll_def strconv_Itoa_def)
qed

section \<open>The bootstrap on concrete inputs\<close>

lemma setupOTelSDK_ex: "setupOTelSDK ex_env ex_ctx ''rolldice'' ''1.0'' ex_state = (Return None, ex_booted)"
  by (simp add: setupOTelSDK_def newResource_def resource_Merge_def
        resource_NewWithAttributes_def semconv_ServiceName_def semconv_ServiceVersion_def
        semconv_ServiceNameKey_def semconv_ServiceVersionKey_def
        ex_env_def ex_default_def ex_state_def ex_booted_def ex_tp_def ex_mp_def ex_resource_def
        newExporter_def newTraceProvider_eq newMeterProvider_eq otel_SetTextMapPropagator_def
        otel_SetTracerProvider_def otel_SetMeterProvider_def log_write_def newPropagator_def
        propagation_NewCompositeTextMapPropagator_def semconv_SchemaURL_def)

lemma shutdown_ex:
  "shutdown ex_env ex_ctx ex_booted =
     (Some (joinError [joinError [errorString ''traces not flushed''], errorString ''metrics not flushed'']),
      ex_booted\<lparr>invoked := [TracerProvider_Shutdown ex_tp, MeterProvider_Shutdown ex_mp], shutdownFuncs := []\<rparr>)"
  by (simp add: shutdown_def call_def ex_booted_def ex_env_def errors_Join_pair)

lemma newResource_ex: "newResource ex_env ''rolldice'' ''1.0'' = Inr ex_resource"
  by (simp add: newResource_def resource_Merge_def resource_NewWithAttributes_def
        semconv_ServiceName_def semconv_ServiceVersion_def semconv_ServiceNameKey_def
        semconv_ServiceVersionKey_def ex_env_def ex_default_def ex_resource_def semconv_SchemaURL_def)

lemma exporter_ex: "otlptracehttp_New ex_env ex_ctx = Inr (otlptrace_Exporter 0)"
  by (simp add: ex_env_def)

lemma newResource_no_exporter: "newResource ex_env_no_exporter ''rolldice'' ''1.0'' = Inr ex_resource"
  by (simp add: newResource_def resource_Merge_def resource_NewWithAttributes_def
        semconv_ServiceName_def semconv_ServiceVersion_def semconv_ServiceNameKey_def
        semconv_ServiceVersionKey_def ex_env_no_exporter_def ex_env_def ex_default_def ex_resource_def
        semconv_SchemaURL_def)

lemma newResource_conflict:
  "newResource ex_env_conflict ''rolldice'' ''1.0'' = Inl errMergeConflictSchemaURL"
  by (simp add: newResource_def resource_Merge_def resource_NewWithAttributes_def
        ex_env_conflict_def ex_env_def ex_default_def semconv_SchemaURL_def)

section \<open>The claims\<close>

text \<open>
  C1. Invoking \<open>shutdown\<close> calls every cleanup registered in \<open>shutdownFuncs\<close>, in
  order and whatever the earlier ones returned, and returns the join of what they
  returned: the result is the left-to-right \<open>errors.Join\<close> of their results, the plain
  errors inside it are exactly the plain errors the cleanups returned, and it is nil only
  when every cleanup returned nil.
\<close>

theorem shutdown_calls_every_cleanup_and_joins:
  assumes "shutdown E ctx s = (err, s')"
  shows "invoked s' = invoked s @ shutdownFuncs s \<and>
         err = foldl (\<lambda>acc r. errors_Join [acc, r]) None (outcomes E ctx (invoked s) (shutdownFuncs s)) \<and>
         leaves_opt err = concat (map leaves_opt (outcomes E ctx (invoked s) (shutdownFuncs s))) \<and>
         (err = None \<longleftrightarrow> (\<forall>r \<in> set (outcomes E ctx (invoked s) (shutdownFuncs s)). r = None))"
proof -
  let ?rs = "outcomes E ctx (invoked s) (shutdownFuncs s)"
  from assms have e: "err = foldl (\<lambda>acc r. errors_Join [acc, r]) None ?rs"
    and s': "s' = s\<lparr>invoked := invoked s @ shutdownFuncs s, shutdownFuncs := []\<rparr>"
    by (simp_all add: shutdown_eq)
  have "leaves_opt err = concat (map leaves_opt ?rs)"
    unfolding e by (simp add: foldl_Join_leaves leaves_opt_None)
  moreover have "err = None \<longleftrightarrow> (\<forall>r \<in> set ?rs. r = None)"
    unfolding e by (simp add: foldl_Join_None)
  ultimately show ?thesis using e s' by simp
qed

theorem shutdown_calls_every_cleanup_and_joins_witness:
  "shutdown ex_env ex_ctx ex_booted =
     (Some (joinError [joinError [errorString ''traces not flushed''], errorString ''metrics not flushed'']),
      ex_booted\<lparr>invoked := [TracerProvider_Shutdown ex_tp, MeterProvider_Shutdown ex_mp], shutdownFuncs := []\<rparr>) \<and>
   leaves_opt (Some (joinError [joinError [errorString ''traces not flushed''], errorString ''metrics not flushed'']))
     = [errorString ''traces not flushed'', errorString ''metrics not flushed'']"
proof -
  have h: "shutdown ex_env ex_ctx ex_booted =
     (Some (joinError [joinError [errorString ''traces not flushed''], errorString ''metrics not flushed'']),
      ex_booted\<lparr>invoked := [TracerProvider_Shutdown ex_tp, MeterProvider_Shutdown ex_mp], shutdownFuncs := []\<rparr>)"
    by (simp add: shutdown_def call_def ex_booted_def ex_env_def errors_Join_pair)
  have l: "leaves_opt (Some (joinError [joinError [errorString ''traces not flushed''], errorString ''metrics not flushed'']))
     = [errorString ''traces not flushed'', errorString ''metrics not flushed'']"
    by (simp add: leaves_opt_def)
  from shutdown_calls_every_cleanup_and_joins [OF h] h l show ?thesis
    by simp
qed

text \<open>
  C2. After \<open>setupOTelSDK\<close> has returned, the first invocation of \<open>shutdown\<close> invokes
  each registered cleanup once (the registry holds no cleanup twice) and empties the
  registry; every later invocation, with any context, returns nil and changes nothing, so
  no cleanup is invoked a second time and only the first invocation's error is ever
  returned.
\<close>

theorem shutdown_again_is_noop:
  assumes "setupOTelSDK E ctx n v s0 = (Return r, s)" and "shutdown E c s = (e, s1)"
  shows "shutdown_times E (c # cs) s = (e # replicate (length cs) None, s1) \<and>
         shutdown E c' s1 = (None, s1) \<and>
         invoked s1 = invoked s0 @ shutdownFuncs s \<and> distinct (shutdownFuncs s)"
proof -
  from assms(2) have s1: "s1 = s\<lparr>invoked := invoked s @ shutdownFuncs s, shutdownFuncs := []\<rparr>"
    by (simp add: shutdown_eq)
  then have empty: "shutdownFuncs s1 = []" by simp
  have "shutdown_times E (c # cs) s = (e # replicate (length cs) None, s1)"
    using assms(2) shutdown_times_empty [OF empty] by simp
  moreover have "shutdown E c' s1 = (None, s1)"
    using empty by (rule shutdown_empty)
  moreover have "invoked s1 = invoked s0 @ shutdownFuncs s"
    using s1 setupOTelSDK_returns [OF assms(1)] by simp
  ultimately show ?thesis using setupOTelSDK_returns [OF assms(1)] by simp
qed

theorem shutdown_again_is_noop_witness:
  "setupOTelSDK ex_env ex_ctx ''rolldice'' ''1.0'' ex_state = (Return None, ex_booted) \<and>
   shutdown_times ex_env [ex_ctx, Deadline (Some 5), ex_ctx] ex_booted =
     ([Some (joinError [joinError [errorString ''traces not flushed''], errorString ''metrics not flushed'']),
       None, None],
      ex_booted\<lparr>invoked := [TracerProvider_Shutdown ex_tp, MeterProvider_Shutdown ex_mp], shutdownFuncs := []\<rparr>)"
  using shutdown_again_is_noop [OF setupOTelSDK_ex shutdown_ex, of "[Deadline (Some 5), ex_ctx]"] setupOTelSDK_ex
  by simp




text \<open>
  C4. When the span exporter cannot be built, \<open>setupOTelSDK\<close> returns nothing to its
  caller: \<open>newExporter\<close> logs the failure and panics with the error, the propagator being
  installed already. No other failure ends that way: \<open>setupOTelSDK\<close> panics only
  when exporter construction failed, and otherwise returns.
\<close>

theorem exporter_failure_panics:
  "(newResource E n v = Inr res \<and> otlptracehttp_New E ctx = Inl e \<longrightarrow>
      setupOTelSDK E ctx n v s0 =
        (Panic e, s0\<lparr>otel_textMapPropagator := Some newPropagator,
                     log_lines := log_lines s0 @ [''Error sending traces '' @ error_Error e],
                     shutdownFuncs := []\<rparr>)) \<and>
   (fst (setupOTelSDK E ctx n v s0) = Panic p \<longrightarrow>
      otlptracehttp_New E ctx = Inl p \<and> newResource E n v \<noteq> Inl err)"
proof -
  have 1: "setupOTelSDK E ctx n v s0 =
        (Panic e, s0\<lparr>otel_textMapPropagator := Some newPropagator,
                     log_lines := log_lines s0 @ [''Error sending traces '' @ error_Error e],
                     shutdownFuncs := []\<rparr>)"
    if "newResource E n v = Inr res" and "otlptracehttp_New E ctx = Inl e"
    using that by (simp add: setupOTelSDK_cases)
  have 2: "otlptracehttp_New E ctx = Inl p \<and> newResource E n v \<noteq> Inl err"
    if "fst (setupOTelSDK E ctx n v s0) = Panic p"
    using setupOTelSDK_panics [OF that] by auto
  show ?thesis
    using 1 2 by blast
qed

theorem exporter_failure_panics_witness:
  "newResource ex_env_no_exporter ''rolldice'' ''1.0'' = Inr ex_resource \<and>
   otlptracehttp_New ex_env_no_exporter ex_ctx = Inl (errorString ''invalid endpoint'') \<and>
   setupOTelSDK ex_env_no_exporter ex_ctx ''rolldice'' ''1.0'' ex_state =
     (Panic (errorString ''invalid endpoint''),
      ex_state\<lparr>otel_textMapPropagator := Some newPropagator,
               log_lines := [''Error sending traces invalid endpoint'']\<rparr>) \<and>
   fst (setupOTelSDK ex_env_no_exporter ex_ctx ''rolldice'' ''1.0'' ex_state)
     = Panic (errorString ''invalid endpoint'')"
proof -
  have x: "otlptracehttp_New ex_env_no_exporter ex_ctx = Inl (errorString ''invalid endpoint'')"
    by (simp add: ex_env_no_exporter_def)
  note t = exporter_failure_panics [where E = ex_env_no_exporter and n = "''rolldice''" and v = "''1.0''"
      and res = ex_resource and ctx = ex_ctx and e = "errorString ''invalid endpoint''" and ?s0.0 = ex_state
      and p = "errorString ''invalid endpoint''" and err = errMergeConflictSchemaURL, THEN conjunct1]
  have "setupOTelSDK ex_env_no_exporter ex_ctx ''rolldice'' ''1.0'' ex_state =
     (Panic (errorString ''invalid endpoint''),
      ex_state\<lparr>otel_textMapPropagator := Some newPropagator,
               log_lines := log_lines ex_state @ [''Error sending traces '' @ error_Error (errorString ''invalid endpoint'')],
               shutdownFuncs := []\<rparr>)"
    using t newResource_no_exporter x by blast
  then have "setupOTelSDK ex_env_no_exporter ex_ctx ''rolldice'' ''1.0'' ex_state =
     (Panic (errorString ''invalid endpoint''),
      ex_state\<lparr>otel_textMapPropagator := Some newPropagator,
               log_lines := [''Error sending traces invalid endpoint'']\<rparr>)"
    by (simp add: ex_state_def)
  then show ?thesis using newResource_no_exporter x by simp
qed

text \<open>
  C5. For every GET request the dice-roll handler answers with status 200 and a plain-text
  body that is the decimal string of the roll, an integer from 1 to 6: the body is one of
  the six strings \<open>1\<close> to \<open>6\<close>.
\<close>

theorem rolldice_get_returns_one_to_six:
  assumes "req_method req = GET"
  shows "status (fst (rolldice rnd req t)) = 200 \<and>
         content_type (fst (rolldice rnd req t)) = ''text/plain'' \<and>
         1 \<le> roll rnd \<and> roll rnd \<le> 6 \<and>
         body (fst (rolldice rnd req t)) = strconv_Itoa (roll rnd) \<and>
         body (fst (rolldice rnd req t)) \<in> {''1'', ''2'', ''3'', ''4'', ''5'', ''6''}"
proof -
  have "1 \<le> roll rnd \<and> roll rnd \<le> 6"
    by (simp add: roll_def)
  then show ?thesis
    using assms Itoa_roll [of rnd] by (simp add: rolldice_def Let_def)
qed

theorem rolldice_get_returns_one_to_six_witness:
  "req_method \<lparr>req_method = GET, req_path = ''/rolldice''\<rparr> = GET \<and>
   fst (rolldice 17 \<lparr>req_method = GET, req_path = ''/rolldice''\<rparr> \<lparr>spans = [], roll_counter = (\<lambda>k. 0)\<rparr>) =
     \<lparr>status = 200, content_type = ''text/plain'', body = ''6''\<rparr>"
proof -
  have g: "req_method \<lparr>req_method = GET, req_path = ''/rolldice''\<rparr> = GET" by simp
  from rolldice_get_returns_one_to_six [OF g, of 17 "\<lparr>spans = [], roll_counter = (\<lambda>k. 0)\<rparr>"]
  show ?thesis
    by (simp add: rolldice_def Let_def roll_def strconv_Itoa_def)
qed

text \<open>
  C6. For any service name and version, the resource \<open>newResource\<close> builds is the
  process-default resource with exactly two attributes written over it:
  \<open>service.name\<close> with the name and \<open>service.version\<close> with the version; every
  other attribute is the process default's.
\<close>

theorem newResource_merges_service_identity:
  assumes "newResource E n v = Inr r"
  shows "attributes r = (attributes (resource_Default E))
            (''service.name'' \<mapsto> STRING n, ''service.version'' \<mapsto> STRING v) \<and>
         dom (attributes r) = dom (attributes (resource_Default E)) \<union> {''service.name'', ''service.version''} \<and>
         attributes r ''service.name'' = Some (STRING n) \<and>
         attributes r ''service.version'' = Some (STRING v) \<and>
         (\<forall>k. k \<noteq> ''service.name'' \<and> k \<noteq> ''service.version'' \<longrightarrow>
              attributes r k = attributes (resource_Default E) k) \<and>
         schemaURL r = ''https://opentelemetry.io/schemas/1.21.0''"
proof -
  from assms have a: "attributes r = attributes (resource_Default E) ++
       [''service.name'' \<mapsto> STRING n, ''service.version'' \<mapsto> STRING v]"
    and u: "schemaURL r = semconv_SchemaURL"
    by (auto simp add: newResource_def resource_Merge_def resource_NewWithAttributes_def
        service_attributes semconv_SchemaURL_def split: if_splits)
  from a have "attributes r = (attributes (resource_Default E))
            (''service.name'' \<mapsto> STRING n, ''service.version'' \<mapsto> STRING v)"
    by simp
  then show ?thesis using u by (auto simp add: semconv_SchemaURL_def)
qed

theorem newResource_merges_service_identity_witness:
  "newResource ex_env ''rolldice'' ''1.0'' = Inr ex_resource \<and>
   attributes ex_resource ''service.name'' = Some (STRING ''rolldice'') \<and>
   attributes ex_resource ''service.version'' = Some (STRING ''1.0'') \<and>
   attributes ex_resource ''telemetry.sdk.language'' = attributes (resource_Default ex_env) ''telemetry.sdk.language'' \<and>
   attributes ex_resource ''telemetry.sdk.language'' = Some (STRING ''go'')"
  using newResource_merges_service_identity [OF newResource_ex] newResource_ex
  by (simp add: ex_env_def ex_default_def)

text \<open>
  C7. When the bootstrap goes through, the tracer provider installed as the global one has
  one batching span processor, around the exporter and with a batch timeout of one second
  (10^9 nanoseconds) where the library's default is five, and carries the resource; its
  \<open>Shutdown\<close> is in the registry.
\<close>

theorem trace_provider_configuration:
  assumes "newResource E n v = Inr res" and "otlptracehttp_New E ctx = Inr x"
    and "setupOTelSDK E ctx n v s0 = (r, s)"
  shows "r = Return None \<and>
         otel_tracerProvider s =
           Some \<lparr>tp_processors = [\<lparr>bsp_exporter = x, BatchTimeout = 1000000000\<rparr>], tp_resource = Some res\<rparr> \<and>
         TracerProvider_Shutdown
           \<lparr>tp_processors = [\<lparr>bsp_exporter = x, BatchTimeout = 1000000000\<rparr>], tp_resource = Some res\<rparr>
           \<in> set (shutdownFuncs s) \<and>
         trace_NewBatchSpanProcessor x [] = \<lparr>bsp_exporter = x, BatchTimeout = 5000000000\<rparr> \<and>
         fst (newTraceProvider res x) =
           Inr \<lparr>tp_processors = [\<lparr>bsp_exporter = x, BatchTimeout = 1000000000\<rparr>], tp_resource = Some res\<rparr>"
  using assms
  by (auto simp add: setupOTelSDK_cases the_tracerProvider_def newTraceProvider_eq
      trace_NewBatchSpanProcessor_def trace_DefaultScheduleDelay_def time_Millisecond_def)

theorem trace_provider_configuration_witness:
  "newResource ex_env ''rolldice'' ''1.0'' = Inr ex_resource \<and>
   otlptracehttp_New ex_env ex_ctx = Inr (otlptrace_Exporter 0) \<and>
   setupOTelSDK ex_env ex_ctx ''rolldice'' ''1.0'' ex_state = (Return None, ex_booted) \<and>
   otel_tracerProvider ex_booted =
     Some \<lparr>tp_processors = [\<lparr>bsp_exporter = otlptrace_Exporter 0, BatchTimeout = 1000000000\<rparr>],
           tp_resource = Some ex_resource\<rparr>"
  using trace_provider_configuration [OF newResource_ex exporter_ex setupOTelSDK_ex]
    newResource_ex exporter_ex setupOTelSDK_ex
  by simp

text \<open>
  C8. When the bootstrap goes through, the meter provider installed as the global one
  carries the resource and has no reader attached, and its \<open>Shutdown\<close> is in the
  registry.
\<close>

theorem meter_provider_configuration:
  assumes "newResource E n v = Inr res" and "otlptracehttp_New E ctx = Inr x"
    and "setupOTelSDK E ctx n v s0 = (r, s)"
  shows "r = Return None \<and>
         otel_meterProvider s = Some \<lparr>mp_resource = Some res, mp_readers = []\<rparr> \<and>
         MeterProvider_Shutdown \<lparr>mp_resource = Some res, mp_readers = []\<rparr> \<in> set (shutdownFuncs s) \<and>
         fst (newMeterProvider res) = Inr \<lparr>mp_resource = Some res, mp_readers = []\<rparr>"
  using assms
  by (auto simp add: setupOTelSDK_cases the_meterProvider_def newMeterProvider_eq)

theorem meter_provider_configuration_witness:
  "newResource ex_env ''rolldice'' ''1.0'' = Inr ex_resource \<and>
   otlptracehttp_New ex_env ex_ctx = Inr (otlptrace_Exporter 0) \<and>
   setupOTelSDK ex_env ex_ctx ''rolldice'' ''1.0'' ex_state = (Return None, ex_booted) \<and>
   otel_meterProvider ex_booted = Some \<lparr>mp_resource = Some ex_resource, mp_readers = []\<rparr> \<and>
   MeterProvider_Shutdown \<lparr>mp_resource = Some ex_resource, mp_readers = []\<rparr> \<in> set (shutdownFuncs ex_booted)"
  using meter_provider_configuration [OF newResource_ex exporter_ex setupOTelSDK_ex]
    newResource_ex exporter_ex setupOTelSDK_ex
  by simp

text \<open>
  C9. When the resource merge fails, \<open>setupOTelSDK\<close> returns a non-nil error (the join
  of the merge error alone) and leaves the global tracer provider, meter provider and
  propagator, the log and the invoked cleanups as they were.
\<close>

theorem resource_failure_installs_nothing:
  assumes "newResource E n v = Inl err" and "setupOTelSDK E ctx n v s0 = (r, s)"
  shows "r = Return (Some (joinError [err])) \<and> r \<noteq> Return None \<and>
         s = s0\<lparr>shutdownFuncs := []\<rparr> \<and>
         otel_tracerProvider s = otel_tracerProvider s0 \<and>
         otel_meterProvider s = otel_meterProvider s0 \<and>
         otel_textMapPropagator s = otel_textMapPropagator s0 \<and>
         log_lines s = log_lines s0 \<and> invoked s = invoked s0"
  using assms by (auto simp add: setupOTelSDK_cases)

theorem resource_failure_installs_nothing_witness:
  "newResource ex_env_conflict ''rolldice'' ''1.0'' = Inl errMergeConflictSchemaURL \<and>
   setupOTelSDK ex_env_conflict ex_ctx ''rolldice'' ''1.0'' ex_state =
     (Return (Some (joinError [errMergeConflictSchemaURL])), ex_state)"
proof -
  obtain r s where rs: "setupOTelSDK ex_env_conflict ex_ctx ''rolldice'' ''1.0'' ex_state = (r, s)"
    by (cases "setupOTelSDK ex_env_conflict ex_ctx ''rolldice'' ''1.0'' ex_state")
  from resource_failure_installs_nothing [OF newResource_conflict rs] rs newResource_conflict
  show ?thesis by (simp add: ex_state_def)
qed




end
